theory Spec2Isabelle
  imports Main "HOL-Library.AList" "HOL-Library.Sublist"
begin

section \<open>Starknet account contracts: a shallow embedding of \<open>ape_starknet/accounts/__init__.py\<close>\<close>

text \<open>
  The module keeps account identities in two places: a dictionary of ephemeral
  (local-network) accounts held in memory, and one JSON key file per persisted alias in
  the plugin's data folder. Every function of the module is translated below under its
  own name (leading underscores dropped). Python exceptions are values of \<open>error\<close>;
  a function that mutates an object or the disk returns the new object and the new
  world next to its result, also when it raises: what was mutated before the
  \<^verbatim>\<open>raise\<close> stays mutated.
\<close>

subsection \<open>Exceptions\<close>

text \<open>
  The module raises \<^verbatim>\<open>AccountsError\<close> at four places, told apart by their message;
  the other exceptions come from the Python runtime and the libraries it calls.
\<close>

datatype accounts_error =
    NotFound string
  | AlreadyExists string
  | FailedToDeploy
  | NotDeployed string string

datatype error =
    AccountsError accounts_error
  | KeyError string
  | ValueError string
  | TypeError
  | AttributeError string
  | FileNotFoundError string
  | Abort
  | ProviderError string

subsection \<open>Data\<close>

text \<open>The dataclass \<^verbatim>\<open>StarknetAccountDeployment\<close>; an address is a hex string.\<close>

record StarknetAccountDeployment =
  network_name :: string
  contract_address :: string

text \<open>
  Modelled from the spec: the encrypted part of a key file, which \<^verbatim>\<open>eth_keyfile\<close>
  (a library outside the repository) produces and reads. Following the credential
  store's contract (decrypting with the passphrase used to encrypt gives back the key,
  any other passphrase fails), a ciphertext is the pair of the key and the passphrase
  that seals it, and only \<open>decode_keyfile_json\<close> below looks inside.
  The library's random salt, initialisation vector and record id are left out.
\<close>

datatype keyfile_crypto = Sealed (sealed_key: int) (sealed_passphrase: string)

text \<open>
  The JSON values that occur in account data. A dictionary is an association list in
  insertion order with \<^const>\<open>AList.update\<close> as item assignment, which is what a
  Python \<^verbatim>\<open>dict\<close> does: an existing key keeps its place and takes the new value, a
  new key goes last. The \<^verbatim>\<open>deployments\<close> entry holds the list of
  \<^verbatim>\<open>vars(StarknetAccountDeployment)\<close> dictionaries, kept as the records themselves.
\<close>

datatype jvalue =
    JInt int
  | JStr string
  | JCrypto keyfile_crypto
  | JDeployments "StarknetAccountDeployment list"

type_synonym jdict = "(string \<times> jvalue) list"

text \<open>\<^verbatim>\<open>{**a, **b}\<close>: the items of \<open>a\<close>, then each item of \<open>b\<close> assigned in order.\<close>

definition dict_merge :: "('k \<times> 'v) list \<Rightarrow> ('k \<times> 'v) list \<Rightarrow> ('k \<times> 'v) list" where
  "dict_merge a b = fold (\<lambda>(k, v). AList.update k v) b a"

text \<open>
  The world outside the process: the key files of the data folder (the stem of
  \<^verbatim>\<open><alias>.json\<close> with the parsed content, in the order \<^verbatim>\<open>glob("*.json")\<close>
  yields them), and the terminal, as the answers still to be typed at
  \<^verbatim>\<open>click.prompt\<close> and \<^verbatim>\<open>click.confirm\<close>.
\<close>

record world =
  files :: "(string \<times> jdict) list"
  prompts :: "string list"
  confirms :: "bool list"

text \<open>
  The collaborators the module calls but does not define: the key-file library's
  derived identifier, \<^verbatim>\<open>KeyPair.from_private_key(k).public_key\<close>, Python's
  \<^verbatim>\<open>int(s, 16)\<close> (\<open>None\<close> where it raises \<^verbatim>\<open>ValueError\<close>), the provider's current
  network name, the ecosystem's \<^verbatim>\<open>decode_address\<close>, and the provider's answer to the
  deployment transaction built for a public key.
\<close>

record receipt =
  receipt_contract_address :: "string option"

record collaborators =
  keyfile_address :: "int \<Rightarrow> string"
  public_key_of :: "int \<Rightarrow> int"
  int_base16 :: "string \<Rightarrow> int option"
  network :: string
  decode_address :: "string \<Rightarrow> string"
  send_transaction :: "int \<Rightarrow> error + receipt"

text \<open>\<^verbatim>\<open>ape.api.networks.LOCAL_NETWORK_NAME\<close>.\<close>

definition LOCAL_NETWORK_NAME :: string where
  "LOCAL_NETWORK_NAME = ''local''"

text \<open>The two account classes. A freshly constructed key-file account is locked.\<close>

record StarknetEphemeralAccount =
  raw_account_data :: jdict
  account_key :: string

record StarknetKeyfileAccount =
  key_file_path :: string
  locked :: bool
  cached_key :: "int option"

datatype BaseStarknetAccount =
    Ephemeral StarknetEphemeralAccount
  | Keyfile StarknetKeyfileAccount

definition new_keyfile_account :: "string \<Rightarrow> StarknetKeyfileAccount" where
  "new_keyfile_account path = \<lparr>key_file_path = path, locked = True, cached_key = None\<rparr>"

text \<open>The container: the two class-level dictionaries.\<close>

record StarknetAccountContracts =
  ephemeral_accounts :: "(string \<times> jdict) list"
  cached_accounts :: "(string \<times> StarknetKeyfileAccount) list"

subsection \<open>Network names\<close>

text \<open>
  \<^verbatim>\<open>_clean_network_name\<close>: the first of the three tokens that occurs in the name
  (\<^verbatim>\<open>net in network\<close> on strings is the substring test, \<^const>\<open>sublist\<close>), else the
  name itself.
\<close>

definition clean_network_name :: "string \<Rightarrow> string" where
  "clean_network_name network_arg =
     (case find (\<lambda>net. sublist net network_arg) [''local'', ''mainnet'', ''testnet''] of
        Some net \<Rightarrow> net
      | None \<Rightarrow> network_arg)"

subsection \<open>The terminal\<close>

text \<open>A prompt with no input left aborts, as \<^verbatim>\<open>click\<close> does at end of input.\<close>

definition click_prompt :: "world \<Rightarrow> (error + string) \<times> world" where
  "click_prompt w =
     (case prompts w of
        [] \<Rightarrow> (Inl Abort, w)
      | p # ps \<Rightarrow> (Inr p, w\<lparr>prompts := ps\<rparr>))"

definition click_confirm :: "world \<Rightarrow> (error + bool) \<times> world" where
  "click_confirm w =
     (case confirms w of
        [] \<Rightarrow> (Inl Abort, w)
      | c # cs \<Rightarrow> (Inr c, w\<lparr>confirms := cs\<rparr>))"

subsection \<open>The key-file library\<close>

text \<open>
  Modelled from the spec: \<^verbatim>\<open>create_keyfile_json\<close> and \<^verbatim>\<open>decode_keyfile_json\<close> of
  \<^verbatim>\<open>eth_keyfile\<close>, with the four entries the library writes. Decoding reads the
  \<^verbatim>\<open>crypto\<close> entry only and fails on any passphrase but the sealing one.
\<close>

definition create_keyfile_json :: "collaborators \<Rightarrow> int \<Rightarrow> string \<Rightarrow> jdict" where
  "create_keyfile_json X private_key password =
     [(''address'', JStr (keyfile_address X private_key)),
      (''crypto'', JCrypto (Sealed private_key password)),
      (''id'', JStr ''''),
      (''version'', JInt 3)]"

definition decode_keyfile_json :: "jdict \<Rightarrow> string \<Rightarrow> error + int" where
  "decode_keyfile_json key_file_dict password =
     (case map_of key_file_dict ''crypto'' of
        None \<Rightarrow> Inl (KeyError ''crypto'')
      | Some (JCrypto c) \<Rightarrow>
          (if sealed_passphrase c = password then Inr (sealed_key c)
           else Inl (ValueError ''MAC mismatch''))
      | Some _ \<Rightarrow> Inl TypeError)"

subsection \<open>Account data and deployments\<close>

text \<open>\<^verbatim>\<open>StarknetKeyfileAccount.get_account_data\<close>: the file's content, or \<^verbatim>\<open>{}\<close>.\<close>

definition get_account_data :: "StarknetKeyfileAccount \<Rightarrow> world \<Rightarrow> jdict" where
  "get_account_data self w =
     (case map_of (files w) (key_file_path self) of
        Some account_data \<Rightarrow> account_data
      | None \<Rightarrow> [])"

text \<open>The same method, dispatched on the class of the account.\<close>

definition account_data :: "BaseStarknetAccount \<Rightarrow> world \<Rightarrow> jdict" where
  "account_data account w =
     (case account of
        Ephemeral e \<Rightarrow> raw_account_data e
      | Keyfile k \<Rightarrow> get_account_data k w)"

definition account_alias :: "BaseStarknetAccount \<Rightarrow> string" where
  "account_alias account =
     (case account of
        Ephemeral e \<Rightarrow> account_key e
      | Keyfile k \<Rightarrow> key_file_path k)"

text \<open>
  \<^verbatim>\<open>BaseStarknetAccount.deployments\<close>, on the account's data:
  \<^verbatim>\<open>get_account_data()["deployments"]\<close> raises \<^verbatim>\<open>KeyError\<close> when the entry is missing.
\<close>

definition deployments :: "jdict \<Rightarrow> error + StarknetAccountDeployment list" where
  "deployments data =
     (case map_of data ''deployments'' of
        None \<Rightarrow> Inl (KeyError ''deployments'')
      | Some (JDeployments ds) \<Rightarrow> Inr ds
      | Some _ \<Rightarrow> Inl TypeError)"

text \<open>
  The property \<^verbatim>\<open>BaseStarknetAccount.contract_address\<close>: the first deployment whose
  network name equals the provider's, decoded; \<^verbatim>\<open>AccountsError\<close> when the loop ends.
\<close>

definition account_contract_address ::
  "collaborators \<Rightarrow> BaseStarknetAccount \<Rightarrow> world \<Rightarrow> error + string" where
  "account_contract_address X account w =
     (case deployments (account_data account w) of
        Inl e \<Rightarrow> Inl e
      | Inr ds \<Rightarrow>
          (case find (\<lambda>deployment. network_name deployment = network X) ds of
             Some deployment \<Rightarrow> Inr (decode_address X (contract_address deployment))
           | None \<Rightarrow> Inl (AccountsError (NotDeployed (account_alias account) (network X)))))"

subsection \<open>Key access of a key-file account\<close>

text \<open>
  \<^verbatim>\<open>__decrypt_key_file\<close>: reads the file, renames \<^verbatim>\<open>public_key\<close> back to
  \<^verbatim>\<open>address\<close> and decodes.
\<close>

definition decrypt_key_file :: "StarknetKeyfileAccount \<Rightarrow> string \<Rightarrow> world \<Rightarrow> error + int" where
  "decrypt_key_file self passphrase w =
     (case map_of (files w) (key_file_path self) of
        None \<Rightarrow> Inl (FileNotFoundError (key_file_path self))
      | Some key_file_dict \<Rightarrow>
          (case map_of key_file_dict ''public_key'' of
             None \<Rightarrow> Inl (KeyError ''public_key'')
           | Some pk \<Rightarrow>
               decode_keyfile_json
                 (AList.delete ''public_key'' (AList.update ''address'' pk key_file_dict))
                 passphrase))"

definition get_passphrase_from_prompt :: "world \<Rightarrow> (error + string) \<times> world" where
  "get_passphrase_from_prompt w = click_prompt w"

text \<open>
  \<^verbatim>\<open>_get_key\<close> after the cached-key test. The variable \<^verbatim>\<open>passphrase\<close> is assigned
  the prompt's answer when it was \<^verbatim>\<open>None\<close>; \<open>passphrase1\<close> is its value from then
  on, and the test \<^verbatim>\<open>passphrase is not None or click.confirm(...)\<close> reads it.
\<close>

definition get_key_decrypt ::
  "StarknetKeyfileAccount \<Rightarrow> string option \<Rightarrow> world
     \<Rightarrow> (error + int) \<times> StarknetKeyfileAccount \<times> world" where
  "get_key_decrypt self passphrase w =
     (case (case passphrase of
              None \<Rightarrow> get_passphrase_from_prompt w
            | Some p \<Rightarrow> (Inr p, w)) of
        (Inl e, w1) \<Rightarrow> (Inl e, self, w1)
      | (Inr p, w1) \<Rightarrow>
          (let passphrase1 = Some p in
           case decrypt_key_file self p w1 of
             Inl e \<Rightarrow> (Inl e, self, w1)
           | Inr key \<Rightarrow>
               (if locked self then
                  (if passphrase1 \<noteq> None then
                     (Inr key, self\<lparr>locked := False, cached_key := Some key\<rparr>, w1)
                   else
                     (case click_confirm w1 of
                        (Inl e, w2) \<Rightarrow> (Inl e, self, w2)
                      | (Inr leave_unlocked, w2) \<Rightarrow>
                          (if leave_unlocked then
                             (Inr key, self\<lparr>locked := False, cached_key := Some key\<rparr>, w2)
                           else (Inr key, self, w2))))
                else (Inr key, self, w1))))"

definition get_key ::
  "StarknetKeyfileAccount \<Rightarrow> string option \<Rightarrow> world
     \<Rightarrow> (error + int) \<times> StarknetKeyfileAccount \<times> world" where
  "get_key self passphrase w =
     (case cached_key self of
        Some key \<Rightarrow>
          (if \<not> locked self then (Inr key, self, w)
           else get_key_decrypt (self\<lparr>cached_key := None\<rparr>) passphrase w)
      | None \<Rightarrow> get_key_decrypt self passphrase w)"

definition encrypt_key_file ::
  "collaborators \<Rightarrow> StarknetKeyfileAccount \<Rightarrow> string \<Rightarrow> int option \<Rightarrow> world
     \<Rightarrow> (error + jdict) \<times> StarknetKeyfileAccount \<times> world" where
  "encrypt_key_file X self passphrase private_key w =
     (case (case private_key of
              None \<Rightarrow> get_key self (Some passphrase) w
            | Some k \<Rightarrow> (Inr k, self, w)) of
        (Inl e, self1, w1) \<Rightarrow> (Inl e, self1, w1)
      | (Inr k, self1, w1) \<Rightarrow> (Inr (create_keyfile_json X k passphrase), self1, w1))"

subsection \<open>Writing and updating a key file\<close>

text \<open>
  \<^verbatim>\<open>write\<close> (here \<open>write_file\<close>): \<open>kwargs\<close> is the dictionary of the extra keyword
  arguments. The file's new content is
  \<^verbatim>\<open>{**key_file_data, **self.get_account_data(), **kwargs}\<close>.
\<close>

definition write_file ::
  "collaborators \<Rightarrow> StarknetKeyfileAccount \<Rightarrow> string option \<Rightarrow> int option \<Rightarrow> jdict \<Rightarrow> world
     \<Rightarrow> (error + unit) \<times> StarknetKeyfileAccount \<times> world" where
  "write_file X self passphrase private_key kwargs w =
     (case (case passphrase of
              None \<Rightarrow> click_prompt w
            | Some p \<Rightarrow> (Inr p, w)) of
        (Inl e, w1) \<Rightarrow> (Inl e, self, w1)
      | (Inr p, w1) \<Rightarrow>
          (case encrypt_key_file X self p private_key w1 of
             (Inl e, self2, w2) \<Rightarrow> (Inl e, self2, w2)
           | (Inr key_file_data, self2, w2) \<Rightarrow>
               (case map_of key_file_data ''address'' of
                  None \<Rightarrow> (Inl (KeyError ''address''), self2, w2)
                | Some a \<Rightarrow>
                    (let key_file_data1 =
                           AList.delete ''address'' (AList.update ''public_key'' a key_file_data);
                         account_data1 =
                           dict_merge (dict_merge key_file_data1 (get_account_data self2 w2)) kwargs
                     in (Inr (), self2,
                         w2\<lparr>files := AList.update (key_file_path self2) account_data1 (files w2)\<rparr>)))))"

text \<open>\<^verbatim>\<open>delete\<close>: \<^verbatim>\<open>d.network_name not in network\<close> is again the substring test.\<close>

definition delete ::
  "collaborators \<Rightarrow> StarknetKeyfileAccount \<Rightarrow> string \<Rightarrow> world
     \<Rightarrow> (error + unit) \<times> StarknetKeyfileAccount \<times> world" where
  "delete X self network_arg w =
     (case click_prompt w of
        (Inl e, w1) \<Rightarrow> (Inl e, self, w1)
      | (Inr passphrase, w1) \<Rightarrow>
          (case decrypt_key_file self passphrase w1 of
             Inl e \<Rightarrow> (Inl e, self, w1)
           | Inr _ \<Rightarrow>
               (case deployments (get_account_data self w1) of
                  Inl e \<Rightarrow> (Inl e, self, w1)
                | Inr ds \<Rightarrow>
                    (let remaining_deployments =
                           filter (\<lambda>d. \<not> sublist (network_name d) network_arg) ds
                     in if remaining_deployments = [] then
                          (Inr (), self,
                           w1\<lparr>files := AList.delete (key_file_path self) (files w1)\<rparr>)
                        else
                          write_file X self (Some passphrase) None
                            [(''deployments'', JDeployments remaining_deployments)] w1))))"

definition change_password ::
  "collaborators \<Rightarrow> StarknetKeyfileAccount \<Rightarrow> world
     \<Rightarrow> (error + unit) \<times> StarknetKeyfileAccount \<times> world" where
  "change_password X self w =
     (let self1 = self\<lparr>locked := True\<rparr> in
      case get_passphrase_from_prompt w of
        (Inl e, w1) \<Rightarrow> (Inl e, self1, w1)
      | (Inr original_passphrase, w1) \<Rightarrow>
          (case get_key self1 (Some original_passphrase) w1 of
             (Inl e, self2, w2) \<Rightarrow> (Inl e, self2, w2)
           | (Inr private_key, self2, w2) \<Rightarrow> write_file X self2 None (Some private_key) [] w2))"

definition add_deployment ::
  "collaborators \<Rightarrow> StarknetKeyfileAccount \<Rightarrow> string \<Rightarrow> string \<Rightarrow> world
     \<Rightarrow> (error + unit) \<times> StarknetKeyfileAccount \<times> world" where
  "add_deployment X self network_arg address w =
     (case get_passphrase_from_prompt w of
        (Inl e, w1) \<Rightarrow> (Inl e, self, w1)
      | (Inr passphrase, w1) \<Rightarrow>
          (let network_name1 = clean_network_name network_arg in
           case deployments (get_account_data self w1) of
             Inl e \<Rightarrow> (Inl e, self, w1)
           | Inr ds \<Rightarrow>
               (let deployments1 =
                      filter (\<lambda>d. \<not> sublist (network_name d) network_name1) ds
                        @ [\<lparr>network_name = network_name1, contract_address = address\<rparr>]
                in case get_key self (Some passphrase) w1 of
                     (Inl e, self2, w2) \<Rightarrow> (Inl e, self2, w2)
                   | (Inr private_key, self2, w2) \<Rightarrow>
                       write_file X self2 (Some passphrase) (Some private_key)
                         [(''deployments'', JDeployments deployments1)] w2)))"

text \<open>
  \<^verbatim>\<open>add_deployment\<close> called on an account of either class. The method is defined in
  \<^verbatim>\<open>StarknetKeyfileAccount\<close> only; neither \<^verbatim>\<open>StarknetEphemeralAccount\<close> nor its base
  class has it, so on an ephemeral account the attribute lookup raises.
\<close>

definition account_add_deployment ::
  "collaborators \<Rightarrow> BaseStarknetAccount \<Rightarrow> string \<Rightarrow> string \<Rightarrow> world
     \<Rightarrow> (error + unit) \<times> BaseStarknetAccount \<times> world" where
  "account_add_deployment X account network_arg address w =
     (case account of
        Keyfile self \<Rightarrow>
          (case add_deployment X self network_arg address w of
             (res, self1, w1) \<Rightarrow> (res, Keyfile self1, w1))
      | Ephemeral e \<Rightarrow> (Inl (AttributeError ''add_deployment''), account, w))"

subsection \<open>The container\<close>

definition aliases :: "StarknetAccountContracts \<Rightarrow> world \<Rightarrow> string list" where
  "aliases r w = map fst (ephemeral_accounts r) @ map fst (files w)"

text \<open>\<^verbatim>\<open>__len__\<close>: the number of key files.\<close>

definition len :: "StarknetAccountContracts \<Rightarrow> world \<Rightarrow> nat" where
  "len r w = length (map fst (files w))"

definition load_key_file_account ::
  "string \<Rightarrow> StarknetAccountContracts \<Rightarrow> world
     \<Rightarrow> (error + StarknetKeyfileAccount) \<times> StarknetAccountContracts" where
  "load_key_file_account alias_arg r w =
     (case map_of (cached_accounts r) alias_arg of
        Some account \<Rightarrow> (Inr account, r)
      | None \<Rightarrow>
          (case find (\<lambda>key_file_stem. key_file_stem = alias_arg) (map fst (files w)) of
             Some key_file_stem \<Rightarrow>
               (let account = new_keyfile_account key_file_stem
                in (Inr account,
                    r\<lparr>cached_accounts := AList.update alias_arg account (cached_accounts r)\<rparr>))
           | None \<Rightarrow> (Inl (AccountsError (NotFound alias_arg)), r)))"

definition load ::
  "string \<Rightarrow> StarknetAccountContracts \<Rightarrow> world
     \<Rightarrow> (error + BaseStarknetAccount) \<times> StarknetAccountContracts" where
  "load alias_arg r w =
     (case map_of (ephemeral_accounts r) alias_arg of
        Some data \<Rightarrow>
          (Inr (Ephemeral \<lparr>raw_account_data = data, account_key = alias_arg\<rparr>), r)
      | None \<Rightarrow>
          (case load_key_file_account alias_arg r w of
             (Inl e, r1) \<Rightarrow> (Inl e, r1)
           | (Inr account, r1) \<Rightarrow> (Inr (Keyfile account), r1)))"

text \<open>
  The \<^verbatim>\<open>private_key\<close> argument of \<^verbatim>\<open>import_account\<close> is an \<^verbatim>\<open>int\<close> or a
  \<^verbatim>\<open>str\<close>; a string has its quotes stripped (\<^verbatim>\<open>strip("'\"")\<close>) and is read in
  base 16.
\<close>

datatype private_key_arg = KeyInt int | KeyStr string

definition strip_quotes :: "string \<Rightarrow> string" where
  "strip_quotes s =
     rev (dropWhile (\<lambda>c. c = CHR 0x27 \<or> c = CHR 0x22)
       (rev (dropWhile (\<lambda>c. c = CHR 0x27 \<or> c = CHR 0x22) s)))"

definition import_account ::
  "collaborators \<Rightarrow> string \<Rightarrow> string \<Rightarrow> string \<Rightarrow> private_key_arg
     \<Rightarrow> StarknetAccountContracts \<Rightarrow> world
     \<Rightarrow> (error + unit) \<times> StarknetAccountContracts \<times> world" where
  "import_account X alias_arg network_arg address private_key r w =
     (case (case private_key of
              KeyInt k \<Rightarrow> Inr k
            | KeyStr s \<Rightarrow>
                (case int_base16 X (strip_quotes s) of
                   None \<Rightarrow> Inl (ValueError ''invalid literal for int() with base 16'')
                 | Some k \<Rightarrow> Inr k)) of
        Inl e \<Rightarrow> (Inl e, r, w)
      | Inr k \<Rightarrow>
          (let network_name1 = clean_network_name network_arg;
               deployment_data =
                 [(''deployments'',
                   JDeployments [\<lparr>network_name = network_name1, contract_address = address\<rparr>])]
           in if network_name1 = LOCAL_NETWORK_NAME then
                (let account_data1 =
                       dict_merge
                         [(''public_key'', JInt (public_key_of X k)), (''private_key'', JInt k)]
                         deployment_data
                 in (Inr (),
                     r\<lparr>ephemeral_accounts :=
                         AList.update alias_arg account_data1 (ephemeral_accounts r)\<rparr>,
                     w))
              else
                (case write_file X (new_keyfile_account alias_arg) None (Some k) deployment_data w of
                   (Inl e, new_account, w1) \<Rightarrow> (Inl e, r, w1)
                 | (Inr u, new_account, w1) \<Rightarrow> (Inr (), r, w1))))"

text \<open>
  \<^verbatim>\<open>deploy_account\<close>: \<open>random_key\<close> is what \<^verbatim>\<open>get_random_private_key()\<close> returns;
  \<^verbatim>\<open>private_key or ...\<close> takes it when the argument is \<^verbatim>\<open>None\<close> or \<^verbatim>\<open>0\<close>. A
  receipt whose contract address is \<^verbatim>\<open>None\<close> or empty is falsy.
\<close>

definition deploy_account ::
  "collaborators \<Rightarrow> string \<Rightarrow> int option \<Rightarrow> int
     \<Rightarrow> StarknetAccountContracts \<Rightarrow> world
     \<Rightarrow> (error + string) \<times> StarknetAccountContracts \<times> world" where
  "deploy_account X alias_arg private_key random_key r w =
     (if alias_arg \<in> set (aliases r w) then
        (Inl (AccountsError (AlreadyExists alias_arg)), r, w)
      else
        (let network_name1 = network X;
             private_key1 =
               (case private_key of
                  None \<Rightarrow> random_key
                | Some k \<Rightarrow> if k \<noteq> 0 then k else random_key)
         in case send_transaction X (public_key_of X private_key1) of
              Inl e \<Rightarrow> (Inl e, r, w)
            | Inr rcpt \<Rightarrow>
                (case receipt_contract_address rcpt of
                   None \<Rightarrow> (Inl (AccountsError FailedToDeploy), r, w)
                 | Some a \<Rightarrow>
                     (if a = [] then (Inl (AccountsError FailedToDeploy), r, w)
                      else
                        (case import_account X alias_arg network_name1 a (KeyInt private_key1) r w of
                           (Inl e, r1, w1) \<Rightarrow> (Inl e, r1, w1)
                         | (Inr u, r1, w1) \<Rightarrow> (Inr a, r1, w1))))))"

text \<open>
  \<^verbatim>\<open>delete_account\<close>. The cache holds the account object itself, so what
  \<^verbatim>\<open>delete\<close> does to the object is seen through the cache afterwards: the model
  stores the object back under its alias.
\<close>

definition delete_account ::
  "collaborators \<Rightarrow> string \<Rightarrow> string option
     \<Rightarrow> StarknetAccountContracts \<Rightarrow> world
     \<Rightarrow> (error + unit) \<times> StarknetAccountContracts \<times> world" where
  "delete_account X alias_arg network_arg r w =
     (let network1 =
            (case network_arg of
               None \<Rightarrow> network X
             | Some n \<Rightarrow> if n \<noteq> [] then n else network X)
      in if map_of (ephemeral_accounts r) alias_arg \<noteq> None then
           (Inr (), r\<lparr>ephemeral_accounts := AList.delete alias_arg (ephemeral_accounts r)\<rparr>, w)
         else
           (case load_key_file_account alias_arg r w of
              (Inl e, r1) \<Rightarrow> (Inl e, r1, w)
            | (Inr account, r1) \<Rightarrow>
                (case delete X account network1 w of
                   (res, account1, w1) \<Rightarrow>
                     (res,
                      r1\<lparr>cached_accounts := AList.update alias_arg account1 (cached_accounts r1)\<rparr>,
                      w1))))"

subsection \<open>Example states\<close>

text \<open>
  Concrete collaborators and states on which the theorems below are evaluated: a
  provider on \<^verbatim>\<open>testnet\<close> whose deployment receipt carries the address \<^verbatim>\<open>0xCD\<close>; the
  key file of alias \<^verbatim>\<open>bob\<close>, holding key \<open>1\<close> sealed under a passphrase, with a
  deployment list; the data of an ephemeral account; and a world with that one key
  file and given terminal input.
\<close>

definition example_collaborators :: collaborators where
  "example_collaborators =
     \<lparr>keyfile_address = (\<lambda>k. ''0x7e5f''),
      public_key_of = (\<lambda>k. k + 100),
      int_base16 = (\<lambda>s. if s = ''0x1'' then Some 1 else None),
      network = ''testnet'',
      decode_address = (\<lambda>a. a),
      send_transaction = (\<lambda>pub. Inr \<lparr>receipt_contract_address = Some ''0xCD''\<rparr>)\<rparr>"

definition example_key_file :: "string \<Rightarrow> StarknetAccountDeployment list \<Rightarrow> jdict" where
  "example_key_file passphrase ds =
     [(''crypto'', JCrypto (Sealed 1 passphrase)),
      (''id'', JStr ''''),
      (''version'', JInt 3),
      (''public_key'', JStr ''0x7e5f''),
      (''deployments'', JDeployments ds)]"

definition example_ephemeral_data :: "int \<Rightarrow> StarknetAccountDeployment list \<Rightarrow> jdict" where
  "example_ephemeral_data k ds =
     [(''public_key'', JInt (k + 100)),
      (''private_key'', JInt k),
      (''deployments'', JDeployments ds)]"

definition example_world :: "(string \<times> jdict) list \<Rightarrow> string list \<Rightarrow> bool list \<Rightarrow> world" where
  "example_world fs ps cs = \<lparr>files = fs, prompts = ps, confirms = cs\<rparr>"

definition example_account :: "bool \<Rightarrow> int option \<Rightarrow> StarknetKeyfileAccount" where
  "example_account l k = \<lparr>key_file_path = ''bob'', locked = l, cached_key = k\<rparr>"

section \<open>Properties\<close>

subsection \<open>Dictionaries, key files and the terminal\<close>

text \<open>
  Merging dictionaries, reading back what was written, and what the key-access and
  writing functions return when their passphrase or key is given.
\<close>

lemma dict_merge_Nil: "dict_merge a [] = a"
  by (simp add: dict_merge_def)

lemma dict_merge_single: "dict_merge a [(k, v)] = AList.update k v a"
  by (simp add: dict_merge_def)

lemma map_of_dict_merge:
  "distinct (map fst b) \<Longrightarrow> map_of (dict_merge a b) = map_of a ++ map_of b"
proof (induction b arbitrary: a)
  case Nil
  then show ?case by (simp add: dict_merge_def)
next
  case (Cons kv b)
  obtain k v where kv: "kv = (k, v)" by (cases kv)
  from Cons.prems kv have k: "k \<notin> fst ` set b" and d: "distinct (map fst b)" by auto
  have "map_of (dict_merge a (kv # b)) = map_of (dict_merge (AList.update k v a) b)"
    by (simp add: dict_merge_def kv)
  also have "\<dots> = map_of (AList.update k v a) ++ map_of b"
    using Cons.IH [OF d] .
  also have "\<dots> = map_of a ++ map_of (kv # b)"
  proof
    fix x
    show "(map_of (AList.update k v a) ++ map_of b) x = (map_of a ++ map_of (kv # b)) x"
    proof -
      from k have "map_of b k = None" by (simp add: map_of_eq_None_iff)
      then show ?thesis
        by (auto simp: kv map_add_def update_conv' split: option.splits)
    qed
  qed
  finally show ?case .
qed

lemma get_account_data_prompts [simp]:
  "get_account_data self (w\<lparr>prompts := ps\<rparr>) = get_account_data self w"
  by (simp add: get_account_data_def)

lemma get_account_data_written:
  "key_file_path self = p \<Longrightarrow>
   get_account_data self (w\<lparr>files := AList.update p d (files w)\<rparr>) = d"
  by (simp add: get_account_data_def update_conv')

lemma deployments_updated:
  "deployments (AList.update ''deployments'' (JDeployments ds) d) = Inr ds"
  by (simp add: deployments_def update_conv')

lemma click_prompt_Inr:
  "click_prompt w = (Inr p, w1) \<Longrightarrow> prompts w = p # prompts w1 \<and> w1 = w\<lparr>prompts := prompts w1\<rparr>"
  by (auto simp: click_prompt_def split: list.splits)

lemma find_eq_member:
  "find (\<lambda>s. s = a) xs = (if a \<in> set xs then Some a else None)"
  by (induction xs) auto

lemma clean_network_name_testnet: "clean_network_name ''testnet'' = ''testnet''"
  by (simp add: clean_network_name_def sublist_code(3))

lemma decrypt_key_file_lookup:
  "decrypt_key_file self p w =
     (case map_of (files w) (key_file_path self) of
        None \<Rightarrow> Inl (FileNotFoundError (key_file_path self))
      | Some d \<Rightarrow>
          (case map_of d ''public_key'' of
             None \<Rightarrow> Inl (KeyError ''public_key'')
           | Some pk \<Rightarrow>
               (case map_of d ''crypto'' of
                  None \<Rightarrow> Inl (KeyError ''crypto'')
                | Some (JCrypto c) \<Rightarrow>
                    (if sealed_passphrase c = p then Inr (sealed_key c)
                     else Inl (ValueError ''MAC mismatch''))
                | Some _ \<Rightarrow> Inl TypeError)))"
  by (simp add: decrypt_key_file_def decode_keyfile_json_def delete_conv' update_conv'
      split: option.splits)

lemma decrypt_key_file_frame:
  "key_file_path s' = key_file_path s \<Longrightarrow> files w' = files w \<Longrightarrow>
   decrypt_key_file s' p w' = decrypt_key_file s p w"
  by (simp add: decrypt_key_file_def split: option.splits)

lemma get_key_Some_frame:
  "get_key self (Some p) w = (res, self2, w2) \<Longrightarrow>
   w2 = w \<and> key_file_path self2 = key_file_path self"
  by (auto simp: get_key_def get_key_decrypt_def split: option.splits sum.splits if_splits)

lemma get_key_Some_locked:
  "locked self \<Longrightarrow> get_key self (Some p) w =
     (case decrypt_key_file self p w of
        Inl e \<Rightarrow> (Inl e, self\<lparr>cached_key := None\<rparr>, w)
      | Inr k \<Rightarrow> (Inr k, self\<lparr>locked := False, cached_key := Some k\<rparr>, w))"
  by (simp add: get_key_def get_key_decrypt_def decrypt_key_file_def
      split: option.splits sum.splits)

lemma get_key_after_decrypt:
  assumes "decrypt_key_file self p w = Inr k"
  shows "\<exists>k' self'. get_key self (Some p) w = (Inr k', self', w)
           \<and> key_file_path self' = key_file_path self"
proof (cases "cached_key self")
  case None
  with assms show ?thesis
    by (simp add: get_key_def get_key_decrypt_def)
next
  case (Some c)
  have "decrypt_key_file (self\<lparr>cached_key := None\<rparr>) p w = Inr k"
    using assms decrypt_key_file_frame [of "self\<lparr>cached_key := None\<rparr>" self w w p] by simp
  with Some show ?thesis
    by (simp add: get_key_def get_key_decrypt_def)
qed

lemma write_file_given:
  "write_file X self (Some p) (Some k) kwargs w =
     (Inr (), self,
      w\<lparr>files := AList.update (key_file_path self)
          (dict_merge
             (dict_merge
                [(''crypto'', JCrypto (Sealed k p)), (''id'', JStr ''''), (''version'', JInt 3),
                 (''public_key'', JStr (keyfile_address X k))]
                (get_account_data self w))
             kwargs)
          (files w)\<rparr>)"
  by (simp add: write_file_def encrypt_key_file_def create_keyfile_json_def)

lemma write_file_prompted:
  "prompts w = p # ps \<Longrightarrow>
   write_file X self None (Some k) kwargs w =
     (Inr (), self,
      w\<lparr>prompts := ps,
        files := AList.update (key_file_path self)
          (dict_merge
             (dict_merge
                [(''crypto'', JCrypto (Sealed k p)), (''id'', JStr ''''), (''version'', JInt 3),
                 (''public_key'', JStr (keyfile_address X k))]
                (get_account_data self w))
             kwargs)
          (files w)\<rparr>)"
  by (simp add: write_file_def encrypt_key_file_def create_keyfile_json_def click_prompt_def)

lemma write_file_no_input:
  "prompts w = [] \<Longrightarrow> write_file X self None k kwargs w = (Inl Abort, self, w)"
  by (simp add: write_file_def click_prompt_def)

text \<open>
  What \<^verbatim>\<open>import_account\<close> does with an integer key, on the local network and on any
  other, and the deployment list it leaves under the alias.
\<close>

lemma import_account_keyfile:
  assumes "clean_network_name net \<noteq> LOCAL_NETWORK_NAME" and "prompts w = p # ps"
  shows "import_account X a net addr (KeyInt k) r w =
     (Inr (), r,
      w\<lparr>prompts := ps,
        files := AList.update a
          (AList.update ''deployments''
             (JDeployments [\<lparr>network_name = clean_network_name net, contract_address = addr\<rparr>])
             (dict_merge
                [(''crypto'', JCrypto (Sealed k p)), (''id'', JStr ''''), (''version'', JInt 3),
                 (''public_key'', JStr (keyfile_address X k))]
                (get_account_data (new_keyfile_account a) w)))
          (files w)\<rparr>)"
proof -
  have path: "key_file_path (new_keyfile_account a) = a"
    by (simp add: new_keyfile_account_def)
  show ?thesis
    using assms(1)
    by (simp add: import_account_def Let_def write_file_prompted [OF assms(2)] path
        dict_merge_single)
qed

lemma import_account_local:
  assumes "clean_network_name net = LOCAL_NETWORK_NAME"
  shows "import_account X a net addr (KeyInt k) r w =
     (Inr (),
      r\<lparr>ephemeral_accounts := AList.update a
          [(''public_key'', JInt (public_key_of X k)), (''private_key'', JInt k),
           (''deployments'',
            JDeployments [\<lparr>network_name = LOCAL_NETWORK_NAME, contract_address = addr\<rparr>])]
          (ephemeral_accounts r)\<rparr>,
      w)"
  using assms by (simp add: import_account_def Let_def dict_merge_def)

lemma import_account_key_file_deployments:
  assumes "import_account X a net addr pk r w = (Inr (), r1, w1)"
  shows "\<exists>data.
           (if clean_network_name net = LOCAL_NETWORK_NAME
            then map_of (ephemeral_accounts r1) a else map_of (files w1) a) = Some data
           \<and> deployments data =
               Inr [\<lparr>network_name = clean_network_name net, contract_address = addr\<rparr>]"
proof -
  from assms obtain k where k: "import_account X a net addr (KeyInt k) r w = (Inr (), r1, w1)"
    by (cases pk) (auto simp: import_account_def split: option.splits)
  show ?thesis
  proof (cases "clean_network_name net = LOCAL_NETWORK_NAME")
    case True
    with k import_account_local [OF True, of X a addr k r w] show ?thesis
      by (auto simp: update_conv' deployments_def)
  next
    case False
    with k obtain p ps where ps: "prompts w = p # ps"
      by (cases "prompts w") (auto simp: import_account_def Let_def write_file_no_input)
    from k import_account_keyfile [OF False ps, of X a addr k r] False show ?thesis
      by (auto simp: update_conv' deployments_updated)
  qed
qed

text \<open>Loading an alias: the cache is asked before the key files are.\<close>

lemma load_key_file_account_result:
  "load_key_file_account a r w = (x, r1) \<Longrightarrow>
   ephemeral_accounts r1 = ephemeral_accounts r
   \<and> (case x of Inl e \<Rightarrow> e = AccountsError (NotFound a) \<and> r1 = r
       | Inr account \<Rightarrow> map_of (cached_accounts r1) a = Some account)"
  by (auto simp: load_key_file_account_def Let_def update_conv' split: option.splits)

lemma load_written_key_file:
  assumes "map_of (ephemeral_accounts r) a = None" and "map_of (cached_accounts r) a = None"
    and "map_of (files w) a = Some d"
  shows "load a r w =
     (Inr (Keyfile (new_keyfile_account a)),
      r\<lparr>cached_accounts := AList.update a (new_keyfile_account a) (cached_accounts r)\<rparr>)"
proof -
  from assms(3) have "a \<in> set (map fst (files w))"
    by (metis map_of_eq_None_iff option.distinct(1) set_map)
  then show ?thesis
    using assms(1,2)
    by (simp add: load_def load_key_file_account_def find_eq_member Let_def)
qed

subsection \<open>Network-name normalisation\<close>

text \<open>
  Claim C6. For every network name \<open>s\<close>: when \<open>s\<close> contains one of the tokens
  \<^verbatim>\<open>local\<close>, \<^verbatim>\<open>mainnet\<close>, \<^verbatim>\<open>testnet\<close> as a substring, normalisation returns one of
  the three tokens, and the token returned occurs in \<open>s\<close>; when \<open>s\<close> contains none of
  them, normalisation returns \<open>s\<close> unchanged. The last three conjuncts say which token
  is returned when several occur: the first in the order local, mainnet, testnet.
\<close>

theorem clean_network_name_tokens:
  "(sublist ''local'' s \<or> sublist ''mainnet'' s \<or> sublist ''testnet'' s \<longrightarrow>
      clean_network_name s \<in> {''local'', ''mainnet'', ''testnet''}
      \<and> sublist (clean_network_name s) s)
   \<and> (\<not> sublist ''local'' s \<and> \<not> sublist ''mainnet'' s \<and> \<not> sublist ''testnet'' s \<longrightarrow>
      clean_network_name s = s)
   \<and> (sublist ''local'' s \<longrightarrow> clean_network_name s = ''local'')
   \<and> (\<not> sublist ''local'' s \<and> sublist ''mainnet'' s \<longrightarrow> clean_network_name s = ''mainnet'')
   \<and> (\<not> sublist ''local'' s \<and> \<not> sublist ''mainnet'' s \<and> sublist ''testnet'' s \<longrightarrow>
      clean_network_name s = ''testnet'')"
  by (simp add: clean_network_name_def)

theorem clean_network_name_tokens_witness:
  "sublist ''testnet'' ''alpha-testnet''
   \<and> \<not> sublist ''local'' ''alpha-testnet'' \<and> \<not> sublist ''mainnet'' ''alpha-testnet''
   \<and> clean_network_name ''alpha-testnet'' = ''testnet''
   \<and> sublist ''local'' ''local-mainnet'' \<and> sublist ''mainnet'' ''local-mainnet''
   \<and> clean_network_name ''local-mainnet'' = ''local''
   \<and> \<not> sublist ''local'' ''goerli'' \<and> \<not> sublist ''mainnet'' ''goerli''
   \<and> \<not> sublist ''testnet'' ''goerli''
   \<and> clean_network_name ''goerli'' = ''goerli''"
  using clean_network_name_tokens [of "''alpha-testnet''"]
    clean_network_name_tokens [of "''local-mainnet''"]
    clean_network_name_tokens [of "''goerli''"]
  by (simp add: sublist_code(3))

subsection \<open>Length and aliases of the container\<close>

text \<open>
  Claim C10. The container's length is the number of key files; its aliases are the
  ephemeral aliases followed by the key-file aliases, so they number the ephemeral
  accounts plus the length, and with at least one ephemeral account the length is
  strictly smaller than the number of aliases.
\<close>

theorem len_excludes_ephemeral:
  "len r w = length (files w)
   \<and> aliases r w = map fst (ephemeral_accounts r) @ map fst (files w)
   \<and> length (aliases r w) = length (ephemeral_accounts r) + len r w
   \<and> (ephemeral_accounts r \<noteq> [] \<longrightarrow> len r w < length (aliases r w))"
  by (simp add: len_def aliases_def)

theorem len_excludes_ephemeral_witness:
  "ephemeral_accounts \<lparr>ephemeral_accounts = [(''dev'', [])], cached_accounts = []\<rparr> \<noteq> []
   \<and> len \<lparr>ephemeral_accounts = [(''dev'', [])], cached_accounts = []\<rparr>
        \<lparr>files = [(''bob'', [])], prompts = [], confirms = []\<rparr> = 1
   \<and> length (aliases \<lparr>ephemeral_accounts = [(''dev'', [])], cached_accounts = []\<rparr>
        \<lparr>files = [(''bob'', [])], prompts = [], confirms = []\<rparr>) = 2"
  using len_excludes_ephemeral
    [of "\<lparr>ephemeral_accounts = [(''dev'', [])], cached_accounts = []\<rparr>"
        "\<lparr>files = [(''bob'', [])], prompts = [], confirms = []\<rparr>"]
  by simp

subsection \<open>Adding a deployment twice\<close>

text \<open>
  A call of \<^verbatim>\<open>add_deployment\<close> that returns has written the old list without the
  records whose name occurs in the normalised name, followed by the new record.
\<close>

lemma add_deployment_result:
  assumes "add_deployment X self net a w = (Inr (), self', w')"
  shows "\<exists>ds. deployments (get_account_data self w) = Inr ds
           \<and> deployments (get_account_data self' w') =
               Inr (filter (\<lambda>d. \<not> sublist (network_name d) (clean_network_name net)) ds
                    @ [\<lparr>network_name = clean_network_name net, contract_address = a\<rparr>])"
proof -
  from assms obtain p w1 ds k where
    prompt: "click_prompt w = (Inr p, w1)" and
    ds: "deployments (get_account_data self w1) = Inr ds" and
    key: "get_key self (Some p) w1 = (Inr k, self', w1)" and
    path: "key_file_path self' = key_file_path self" and
    w': "w' = w1\<lparr>files := AList.update (key_file_path self)
            (AList.update ''deployments''
               (JDeployments
                  (filter (\<lambda>d. \<not> sublist (network_name d) (clean_network_name net)) ds
                   @ [\<lparr>network_name = clean_network_name net, contract_address = a\<rparr>]))
               (dict_merge
                  [(''crypto'', JCrypto (Sealed k p)), (''id'', JStr ''''), (''version'', JInt 3),
                   (''public_key'', JStr (keyfile_address X k))]
                  (get_account_data self' w1)))
            (files w1)\<rparr>"
    unfolding add_deployment_def get_passphrase_from_prompt_def Let_def
    apply (clarsimp split: prod.splits sum.splits)
    apply (frule get_key_Some_frame)
    apply (clarsimp simp: write_file_given dict_merge_single)
    done
  from prompt have "w1 = w\<lparr>prompts := prompts w1\<rparr>"
    by (simp add: click_prompt_Inr)
  then have "get_account_data self w1 = get_account_data self w"
    by (metis get_account_data_prompts)
  with ds have before: "deployments (get_account_data self w) = Inr ds"
    by simp
  have "deployments (get_account_data self' w') =
          Inr (filter (\<lambda>d. \<not> sublist (network_name d) (clean_network_name net)) ds
               @ [\<lparr>network_name = clean_network_name net, contract_address = a\<rparr>])"
    unfolding w' by (simp only: get_account_data_written [OF path] deployments_updated)
  with before show ?thesis by blast
qed

text \<open>
  Claim C1, amended. For every account and every pair of calls
  \<^verbatim>\<open>add_deployment(net, a)\<close>, \<^verbatim>\<open>add_deployment(net, b)\<close> that both return: the account is
  a key-file (persisted) account, and afterwards its deployment list holds exactly one
  record whose network name is the normalised \<open>net\<close>, with contract address \<open>b\<close>.
  An ephemeral account has no \<^verbatim>\<open>add_deployment\<close> method, so no call on it returns.
\<close>

theorem add_deployment_twice_one_record:
  assumes first: "account_add_deployment X account net a w = (Inr (), account1, w1)"
      and second: "account_add_deployment X account1 net b w1 = (Inr (), account2, w2)"
  shows "(\<exists>self. account = Keyfile self)
         \<and> (\<exists>ds. deployments (account_data account2 w2) = Inr ds
               \<and> filter (\<lambda>d. network_name d = clean_network_name net) ds =
                   [\<lparr>network_name = clean_network_name net, contract_address = b\<rparr>])"
proof -
  from first obtain self self1 where
    account: "account = Keyfile self" and account1: "account1 = Keyfile self1"
    by (auto simp: account_add_deployment_def split: BaseStarknetAccount.splits prod.splits)
  from second account1 obtain self2 where
    account2: "account2 = Keyfile self2" and
    call: "add_deployment X self1 net b w1 = (Inr (), self2, w2)"
    by (auto simp: account_add_deployment_def split: prod.splits)
  from add_deployment_result [OF call] obtain ds where
    after: "deployments (get_account_data self2 w2) =
              Inr (filter (\<lambda>d. \<not> sublist (network_name d) (clean_network_name net)) ds
                   @ [\<lparr>network_name = clean_network_name net, contract_address = b\<rparr>])"
    by blast
  have "deployments (account_data account2 w2) =
          Inr (filter (\<lambda>d. \<not> sublist (network_name d) (clean_network_name net)) ds
               @ [\<lparr>network_name = clean_network_name net, contract_address = b\<rparr>])"
    using after by (simp add: account2 account_data_def)
  moreover have "filter (\<lambda>d. network_name d = clean_network_name net)
          (filter (\<lambda>d. \<not> sublist (network_name d) (clean_network_name net)) ds
           @ [\<lparr>network_name = clean_network_name net, contract_address = b\<rparr>]) =
        [\<lparr>network_name = clean_network_name net, contract_address = b\<rparr>]"
    by (auto simp: filter_empty_conv)
  ultimately show ?thesis using account by blast
qed

theorem add_deployment_twice_one_record_witness:
  "account_add_deployment example_collaborators (Keyfile (example_account True None))
     ''alpha-testnet'' ''0xA''
     (example_world
        [(''bob'', example_key_file ''pw''
           [\<lparr>network_name = ''mainnet'', contract_address = ''0x11''\<rparr>,
            \<lparr>network_name = ''testnet'', contract_address = ''0xAB''\<rparr>])]
        [''pw'', ''pw''] [])
   = (Inr (), Keyfile (example_account False (Some 1)),
      example_world
        [(''bob'', example_key_file ''pw''
           [\<lparr>network_name = ''mainnet'', contract_address = ''0x11''\<rparr>,
            \<lparr>network_name = ''testnet'', contract_address = ''0xA''\<rparr>])]
        [''pw''] [])
   \<and> account_add_deployment example_collaborators (Keyfile (example_account False (Some 1)))
     ''alpha-testnet'' ''0xB''
     (example_world
        [(''bob'', example_key_file ''pw''
           [\<lparr>network_name = ''mainnet'', contract_address = ''0x11''\<rparr>,
            \<lparr>network_name = ''testnet'', contract_address = ''0xA''\<rparr>])]
        [''pw''] [])
   = (Inr (), Keyfile (example_account False (Some 1)),
      example_world
        [(''bob'', example_key_file ''pw''
           [\<lparr>network_name = ''mainnet'', contract_address = ''0x11''\<rparr>,
            \<lparr>network_name = ''testnet'', contract_address = ''0xB''\<rparr>])]
        [] [])
   \<and> (\<exists>ds. deployments (account_data (Keyfile (example_account False (Some 1)))
          (example_world
            [(''bob'', example_key_file ''pw''
               [\<lparr>network_name = ''mainnet'', contract_address = ''0x11''\<rparr>,
                \<lparr>network_name = ''testnet'', contract_address = ''0xB''\<rparr>])]
            [] [])) = Inr ds
        \<and> filter (\<lambda>d. network_name d = clean_network_name ''alpha-testnet'') ds =
            [\<lparr>network_name = clean_network_name ''alpha-testnet'', contract_address = ''0xB''\<rparr>])"
proof -
  have first: "account_add_deployment example_collaborators (Keyfile (example_account True None))
     ''alpha-testnet'' ''0xA''
     (example_world
        [(''bob'', example_key_file ''pw''
           [\<lparr>network_name = ''mainnet'', contract_address = ''0x11''\<rparr>,
            \<lparr>network_name = ''testnet'', contract_address = ''0xAB''\<rparr>])]
        [''pw'', ''pw''] [])
   = (Inr (), Keyfile (example_account False (Some 1)),
      example_world
        [(''bob'', example_key_file ''pw''
           [\<lparr>network_name = ''mainnet'', contract_address = ''0x11''\<rparr>,
            \<lparr>network_name = ''testnet'', contract_address = ''0xA''\<rparr>])]
        [''pw''] [])"
    by code_simp
  have second: "account_add_deployment example_collaborators (Keyfile (example_account False (Some 1)))
     ''alpha-testnet'' ''0xB''
     (example_world
        [(''bob'', example_key_file ''pw''
           [\<lparr>network_name = ''mainnet'', contract_address = ''0x11''\<rparr>,
            \<lparr>network_name = ''testnet'', contract_address = ''0xA''\<rparr>])]
        [''pw''] [])
   = (Inr (), Keyfile (example_account False (Some 1)),
      example_world
        [(''bob'', example_key_file ''pw''
           [\<lparr>network_name = ''mainnet'', contract_address = ''0x11''\<rparr>,
            \<lparr>network_name = ''testnet'', contract_address = ''0xB''\<rparr>])]
        [] [])"
    by code_simp
  from add_deployment_twice_one_record [OF first second] first second
  show ?thesis by blast
qed

text \<open>
  The claim as first stated also covers ephemeral accounts. On the ephemeral account
  \<^verbatim>\<open>dev\<close>, deployed on \<^verbatim>\<open>local\<close> at \<^verbatim>\<open>0xA\<close>, both calls raise
  \<^verbatim>\<open>AttributeError\<close> and the deployment list still holds \<^verbatim>\<open>0xA\<close>, not the address
  \<^verbatim>\<open>0xC\<close> of the second call.
\<close>

theorem add_deployment_ephemeral_counterexample:
  "(case account_add_deployment example_collaborators
          (Ephemeral \<lparr>raw_account_data =
               example_ephemeral_data 1 [\<lparr>network_name = ''local'', contract_address = ''0xA''\<rparr>],
             account_key = ''dev''\<rparr>)
          ''local'' ''0xB'' (example_world [] [''pw'', ''pw''] []) of
      (res1, account1, w1) \<Rightarrow>
        (case account_add_deployment example_collaborators account1 ''local'' ''0xC'' w1 of
           (res2, account2, w2) \<Rightarrow> (res1, res2, deployments (account_data account2 w2))))
   = (Inl (AttributeError ''add_deployment''), Inl (AttributeError ''add_deployment''),
      Inr [\<lparr>network_name = ''local'', contract_address = ''0xA''\<rparr>])"
  by code_simp

subsection \<open>Changing the passphrase\<close>

text \<open>
  \<^verbatim>\<open>change_password\<close> with the old passphrase and a new one typed at the prompts
  writes \<^verbatim>\<open>{**key_file_data, **self.get_account_data()}\<close>: every entry of the freshly
  encrypted \<open>key_file_data\<close> that the file already has is overwritten by the file's
  old entry. So the file decrypts after the call exactly as it did before, under the
  old passphrase and under no other, and the deployment list is kept.
\<close>

lemma change_password_result:
  assumes "prompts w = old # new # ps"
    and "decrypt_key_file self old w = Inr k"
  shows "change_password X self w =
     (Inr (), self\<lparr>locked := False, cached_key := Some k\<rparr>,
      w\<lparr>prompts := ps,
        files := AList.update (key_file_path self)
          (dict_merge
             [(''crypto'', JCrypto (Sealed k new)), (''id'', JStr ''''), (''version'', JInt 3),
              (''public_key'', JStr (keyfile_address X k))]
             (get_account_data self w))
          (files w)\<rparr>)"
proof -
  have d: "decrypt_key_file (self\<lparr>locked := True\<rparr>) old (w\<lparr>prompts := new # ps\<rparr>) = Inr k"
    using assms(2)
      decrypt_key_file_frame [of "self\<lparr>locked := True\<rparr>" self "w\<lparr>prompts := new # ps\<rparr>" w old]
    by simp
  have g: "get_key (self\<lparr>locked := True\<rparr>) (Some old) (w\<lparr>prompts := new # ps\<rparr>) =
      (Inr k, self\<lparr>locked := False, cached_key := Some k\<rparr>, w\<lparr>prompts := new # ps\<rparr>)"
    by (simp add: get_key_Some_locked d)
  have wr: "write_file X (self\<lparr>locked := False, cached_key := Some k\<rparr>) None (Some k) []
        (w\<lparr>prompts := new # ps\<rparr>) =
      (Inr (), self\<lparr>locked := False, cached_key := Some k\<rparr>,
       w\<lparr>prompts := ps,
        files := AList.update (key_file_path self)
          (dict_merge
             [(''crypto'', JCrypto (Sealed k new)), (''id'', JStr ''''), (''version'', JInt 3),
              (''public_key'', JStr (keyfile_address X k))]
             (get_account_data self w))
          (files w)\<rparr>)"
    by (simp add: write_file_prompted [where p = new and ps = ps] dict_merge_Nil
        get_account_data_def)
  show ?thesis
    using assms(1)
    by (simp add: change_password_def get_passphrase_from_prompt_def click_prompt_def g wr)
qed

lemma change_password_keeps_ciphertext:
  assumes "prompts w = old # new # ps"
    and "decrypt_key_file self old w = Inr k"
    and "distinct (map fst (get_account_data self w))"
    and "change_password X self w = (res, self', w')"
  shows "res = Inr ()
    \<and> decrypt_key_file self' p w' = decrypt_key_file self p w
    \<and> deployments (get_account_data self' w') = deployments (get_account_data self w)"
proof -
  obtain d where d: "map_of (files w) (key_file_path self) = Some d"
    using assms(2) by (auto simp: decrypt_key_file_def split: option.splits)
  then have gd: "get_account_data self w = d"
    by (simp add: get_account_data_def)
  from assms(2) d obtain pk c where
    pk: "map_of d ''public_key'' = Some pk" and c: "map_of d ''crypto'' = Some c"
    by (auto simp: decrypt_key_file_lookup split: option.splits)
  define d' where "d' = dict_merge
             [(''crypto'', JCrypto (Sealed k new)), (''id'', JStr ''''), (''version'', JInt 3),
              (''public_key'', JStr (keyfile_address X k))] d"
  from assms(3) gd have m: "map_of d' = map_of
             [(''crypto'', JCrypto (Sealed k new)), (''id'', JStr ''''), (''version'', JInt 3),
              (''public_key'', JStr (keyfile_address X k))] ++ map_of d"
    by (simp add: d'_def map_of_dict_merge)
  have same: "map_of d' ''public_key'' = map_of d ''public_key''"
    "map_of d' ''crypto'' = map_of d ''crypto''"
    "map_of d' ''deployments'' = map_of d ''deployments''"
    by (simp_all add: m pk c map_add_def split: option.splits)
  from change_password_result [OF assms(1,2), of X] assms(4) gd
  have res: "res = Inr ()"
    and self': "self' = self\<lparr>locked := False, cached_key := Some k\<rparr>"
    and w': "w' = w\<lparr>prompts := ps, files := AList.update (key_file_path self) d' (files w)\<rparr>"
    by (simp_all add: d'_def)
  have stored: "map_of (files w') (key_file_path self') = Some d'"
    by (simp add: self' w' update_conv')
  have "decrypt_key_file self' p w' = decrypt_key_file self p w'"
    by (rule decrypt_key_file_frame) (simp_all add: self')
  also have "\<dots> = decrypt_key_file self p w"
    using stored by (simp add: decrypt_key_file_lookup d same pk c self')
  finally have "decrypt_key_file self' p w' = decrypt_key_file self p w" .
  moreover have "deployments (get_account_data self' w') = deployments (get_account_data self w)"
    by (simp add: get_account_data_def stored d deployments_def same)
  ultimately show ?thesis using res by simp
qed

text \<open>
  Claim C2. The claim says that after \<^verbatim>\<open>change_passphrase(old, new)\<close> the key file
  decrypts under \<open>new\<close> and no longer under \<open>old\<close>, with the deployment list
  unchanged. Evaluated on the key file of \<^verbatim>\<open>bob\<close> sealed under \<^verbatim>\<open>old\<close>: the call
  returns, the file is what it was, decrypting with \<^verbatim>\<open>new\<close> fails and decrypting with
  \<^verbatim>\<open>old\<close> still gives the key.
\<close>

theorem change_password_keeps_old_passphrase:
  "change_password example_collaborators (example_account True None)
     (example_world
        [(''bob'', example_key_file ''old''
           [\<lparr>network_name = ''testnet'', contract_address = ''0xAB''\<rparr>])]
        [''old'', ''new''] [])
   = (Inr (), example_account False (Some 1),
      example_world
        [(''bob'', example_key_file ''old''
           [\<lparr>network_name = ''testnet'', contract_address = ''0xAB''\<rparr>])]
        [] [])
   \<and> decrypt_key_file (example_account False (Some 1)) ''new''
       (example_world
          [(''bob'', example_key_file ''old''
             [\<lparr>network_name = ''testnet'', contract_address = ''0xAB''\<rparr>])]
          [] [])
     = Inl (ValueError ''MAC mismatch'')
   \<and> decrypt_key_file (example_account False (Some 1)) ''old''
       (example_world
          [(''bob'', example_key_file ''old''
             [\<lparr>network_name = ''testnet'', contract_address = ''0xAB''\<rparr>])]
          [] [])
     = Inr 1"
  by code_simp

subsection \<open>Importing under an alias that exists\<close>

text \<open>\<^verbatim>\<open>import_account\<close> never raises \<^verbatim>\<open>AccountsError\<close>: it has no test of the alias.\<close>

lemma import_account_never_already_exists:
  "fst (import_account X a net addr pk r w) \<noteq> Inl (AccountsError e)"
  by (cases pk)
    (auto simp: import_account_def write_file_def encrypt_key_file_def click_prompt_def
      create_keyfile_json_def Let_def split: option.splits list.splits)

text \<open>
  Claim C3. The claim says that \<^verbatim>\<open>import_account\<close> under an alias already present in
  the ephemeral or the persisted namespace fails with an already-exists error and
  leaves the registry unchanged, as \<^verbatim>\<open>deploy_account\<close> does for such an alias.
  Evaluated on an ephemeral alias \<^verbatim>\<open>dev\<close> and on a persisted alias \<^verbatim>\<open>bob\<close>, both
  present: each call returns normally. The ephemeral account of \<^verbatim>\<open>dev\<close> (key \<open>1\<close> at
  \<^verbatim>\<open>0xA\<close>) is replaced by the imported one; the key file of \<^verbatim>\<open>bob\<close> loses its
  deployment on \<^verbatim>\<open>mainnet\<close> and keeps its old ciphertext, so the imported key \<open>2\<close>
  and the passphrase typed for it are dropped.
\<close>

theorem import_account_overwrites_existing_alias:
  "import_account example_collaborators ''dev'' ''local'' ''0xB'' (KeyInt 2)
     \<lparr>ephemeral_accounts =
        [(''dev'', example_ephemeral_data 1
            [\<lparr>network_name = ''local'', contract_address = ''0xA''\<rparr>])],
      cached_accounts = []\<rparr>
     (example_world [] [] [])
   = (Inr (),
      \<lparr>ephemeral_accounts =
        [(''dev'', example_ephemeral_data 2
            [\<lparr>network_name = ''local'', contract_address = ''0xB''\<rparr>])],
       cached_accounts = []\<rparr>,
      example_world [] [] [])
   \<and> import_account example_collaborators ''bob'' ''testnet'' ''0xB'' (KeyInt 2)
     \<lparr>ephemeral_accounts = [], cached_accounts = []\<rparr>
     (example_world
        [(''bob'', example_key_file ''pw''
           [\<lparr>network_name = ''mainnet'', contract_address = ''0x11''\<rparr>])]
        [''pw2''] [])
   = (Inr (),
      \<lparr>ephemeral_accounts = [], cached_accounts = []\<rparr>,
      example_world
        [(''bob'', example_key_file ''pw''
           [\<lparr>network_name = ''testnet'', contract_address = ''0xB''\<rparr>])]
        [] [])"
  by code_simp

subsection \<open>The contract address of an account\<close>

text \<open>
  Where the account's data holds a deployment list, \<^verbatim>\<open>contract_address\<close> returns the
  decoded address of the first deployment whose network name equals the provider's
  network name, and fails with the not-deployed \<^verbatim>\<open>AccountsError\<close> when there is none.
  After importing an alias that is new to the container with a single deployment on
  \<^verbatim>\<open>testnet\<close> (a passphrase being typed at the prompt), the loaded account's
  \<^verbatim>\<open>contract_address\<close> is that address on \<^verbatim>\<open>testnet\<close> and fails with the not-deployed
  error on \<^verbatim>\<open>mainnet\<close>.
\<close>

theorem contract_address_lookup:
  "(deployments (account_data account w) = Inr ds
      \<and> find (\<lambda>d. network_name d = network X) ds = Some d \<longrightarrow>
    account_contract_address X account w = Inr (decode_address X (contract_address d)))
   \<and> (deployments (account_data account w) = Inr ds
      \<and> (\<forall>d \<in> set ds. network_name d \<noteq> network X) \<longrightarrow>
    account_contract_address X account w =
      Inl (AccountsError (NotDeployed (account_alias account) (network X))))
   \<and> (map_of (ephemeral_accounts r) a = None \<and> map_of (cached_accounts r) a = None
      \<and> prompts w0 \<noteq> [] \<longrightarrow>
    (\<exists>r1 w1 bob r2.
       import_account X a ''testnet'' addr (KeyInt k) r w0 = (Inr (), r1, w1)
       \<and> load a r1 w1 = (Inr bob, r2)
       \<and> account_contract_address (X\<lparr>network := ''testnet''\<rparr>) bob w1
           = Inr (decode_address X addr)
       \<and> account_contract_address (X\<lparr>network := ''mainnet''\<rparr>) bob w1
           = Inl (AccountsError (NotDeployed a ''mainnet''))))"
proof (intro conjI impI)
  assume "deployments (account_data account w) = Inr ds
      \<and> find (\<lambda>d. network_name d = network X) ds = Some d"
  then show "account_contract_address X account w = Inr (decode_address X (contract_address d))"
    by (simp add: account_contract_address_def)
next
  assume h: "deployments (account_data account w) = Inr ds
      \<and> (\<forall>d \<in> set ds. network_name d \<noteq> network X)"
  then have "find (\<lambda>d. network_name d = network X) ds = None"
    by (simp add: find_None_iff)
  with h show "account_contract_address X account w =
      Inl (AccountsError (NotDeployed (account_alias account) (network X)))"
    by (simp add: account_contract_address_def)
next
  assume h: "map_of (ephemeral_accounts r) a = None \<and> map_of (cached_accounts r) a = None
      \<and> prompts w0 \<noteq> []"
  then obtain p ps where ps: "prompts w0 = p # ps"
    by (cases "prompts w0") auto
  define data where "data =
    AList.update ''deployments''
      (JDeployments [\<lparr>network_name = ''testnet'', contract_address = addr\<rparr>])
      (dict_merge
         [(''crypto'', JCrypto (Sealed k p)), (''id'', JStr ''''), (''version'', JInt 3),
          (''public_key'', JStr (keyfile_address X k))]
         (get_account_data (new_keyfile_account a) w0))"
  define w1 where "w1 = w0\<lparr>prompts := ps, files := AList.update a data (files w0)\<rparr>"
  have not_local: "clean_network_name ''testnet'' \<noteq> LOCAL_NETWORK_NAME"
    by (simp add: clean_network_name_testnet LOCAL_NETWORK_NAME_def)
  have imp: "import_account X a ''testnet'' addr (KeyInt k) r w0 = (Inr (), r, w1)"
    using import_account_keyfile [OF not_local ps, of X a addr k r]
    by (simp add: w1_def data_def clean_network_name_testnet)
  have stored: "map_of (files w1) a = Some data"
    by (simp add: w1_def update_conv')
  have ld: "load a r w1 =
     (Inr (Keyfile (new_keyfile_account a)),
      r\<lparr>cached_accounts := AList.update a (new_keyfile_account a) (cached_accounts r)\<rparr>)"
    using h stored by (simp add: load_written_key_file)
  have acc: "account_data (Keyfile (new_keyfile_account a)) w1 = data"
    using stored by (simp add: account_data_def get_account_data_def new_keyfile_account_def)
  have deps: "deployments data = Inr [\<lparr>network_name = ''testnet'', contract_address = addr\<rparr>]"
    by (simp add: data_def deployments_updated)
  have t: "account_contract_address (X\<lparr>network := ''testnet''\<rparr>) (Keyfile (new_keyfile_account a)) w1
           = Inr (decode_address X addr)"
    by (simp add: account_contract_address_def acc deps)
  have al: "account_alias (Keyfile (new_keyfile_account a)) = a"
    by (simp add: account_alias_def new_keyfile_account_def)
  have m: "account_contract_address (X\<lparr>network := ''mainnet''\<rparr>) (Keyfile (new_keyfile_account a)) w1
           = Inl (AccountsError (NotDeployed a ''mainnet''))"
    by (simp add: account_contract_address_def acc deps al)
  from imp ld t m show "\<exists>r1 w1 bob r2.
       import_account X a ''testnet'' addr (KeyInt k) r w0 = (Inr (), r1, w1)
       \<and> load a r1 w1 = (Inr bob, r2)
       \<and> account_contract_address (X\<lparr>network := ''testnet''\<rparr>) bob w1
           = Inr (decode_address X addr)
       \<and> account_contract_address (X\<lparr>network := ''mainnet''\<rparr>) bob w1
           = Inl (AccountsError (NotDeployed a ''mainnet''))"
    by blast
qed

text \<open>
  Where the data holds no \<^verbatim>\<open>deployments\<close> entry the property raises \<^verbatim>\<open>KeyError\<close>:
  \<^verbatim>\<open>get_account_data\<close> returns \<^verbatim>\<open>{}\<close> for a key-file account whose file does not
  exist, and \<^verbatim>\<open>deployments\<close> indexes it with \<^verbatim>\<open>["deployments"]\<close>.
\<close>

lemma contract_address_without_key_file:
  "map_of (files w) (key_file_path self) = None \<Longrightarrow>
   account_contract_address X (Keyfile self) w = Inl (KeyError ''deployments'')"
  by (simp add: account_contract_address_def account_data_def get_account_data_def
      deployments_def)

lemma contract_address_without_deployments:
  "map_of (account_data account w) ''deployments'' = None \<Longrightarrow>
   account_contract_address X account w = Inl (KeyError ''deployments'')"
  by (simp add: account_contract_address_def deployments_def)

text \<open>
  Claim C4. The claim says that for every account identity \<^verbatim>\<open>contract_address\<close>
  returns the decoded address of the deployment for the current network when there is
  one, and fails with the not-deployed error when there is none. Evaluated on the
  alias \<^verbatim>\<open>bob\<close> after its only deployment was deleted through the container: the key
  file is gone, \<^verbatim>\<open>load\<close> still returns the account from the cache, no deployment
  record exists for \<^verbatim>\<open>testnet\<close>, and \<^verbatim>\<open>contract_address\<close> fails with
  \<^verbatim>\<open>KeyError\<close>, not with the not-deployed \<^verbatim>\<open>AccountsError\<close>. The same happens on a
  key-file account constructed for a path with no file; with a key file whose
  deployment list is empty the not-deployed error is raised.
\<close>

theorem contract_address_of_deleted_account_raises_key_error:
  "(case delete_account example_collaborators ''bob'' (Some ''testnet'')
           \<lparr>ephemeral_accounts = [], cached_accounts = []\<rparr>
           (example_world
              [(''bob'', example_key_file ''pw''
                 [\<lparr>network_name = ''testnet'', contract_address = ''0xAB''\<rparr>])]
              [''pw''] []) of
      (res, r1, w1) \<Rightarrow>
        (case load ''bob'' r1 w1 of
           (Inl e, r2) \<Rightarrow> (res, Inl e)
         | (Inr bob, r2) \<Rightarrow>
             (res, account_contract_address example_collaborators bob w1)))
   = (Inr (), Inl (KeyError ''deployments''))
   \<and> account_contract_address example_collaborators
       (Keyfile (new_keyfile_account ''carol'')) (example_world [] [] [])
     = Inl (KeyError ''deployments'')
   \<and> account_contract_address example_collaborators
       (Keyfile (example_account True None))
       (example_world [(''bob'', example_key_file ''pw'' [])] [] [])
     = Inl (AccountsError (NotDeployed ''bob'' ''testnet''))"
  by code_simp

subsection \<open>Deleting a deployment\<close>

text \<open>
  \<^verbatim>\<open>delete\<close> with the file's passphrase typed at the prompt returns; it removes the
  records whose network name occurs in the given name; when none remain the key file
  is gone, otherwise the file holds exactly the remaining records.
\<close>

lemma delete_outcome:
  assumes ps: "prompts w = p # ps"
    and key: "decrypt_key_file self p w = Inr k"
    and ds: "deployments (get_account_data self w) = Inr ds"
  shows "\<exists>self' w'. delete X self n w = (Inr (), self', w')
           \<and> key_file_path self' = key_file_path self
           \<and> (if filter (\<lambda>d. \<not> sublist (network_name d) n) ds = []
               then map_of (files w') (key_file_path self) = None
               else deployments (get_account_data self' w') =
                      Inr (filter (\<lambda>d. \<not> sublist (network_name d) n) ds))"
proof -
  let ?w1 = "w\<lparr>prompts := ps\<rparr>"
  let ?remaining = "filter (\<lambda>d. \<not> sublist (network_name d) n) ds"
  have prompt: "click_prompt w = (Inr p, ?w1)"
    using ps by (simp add: click_prompt_def)
  have key1: "decrypt_key_file self p ?w1 = Inr k"
    using key decrypt_key_file_frame [of self self ?w1 w p] by simp
  show ?thesis
  proof (cases "?remaining = []")
    case True
    then have "delete X self n w =
        (Inr (), self, ?w1\<lparr>files := AList.delete (key_file_path self) (files ?w1)\<rparr>)"
      by (simp add: delete_def prompt key1 ds Let_def)
    moreover have "map_of (files (?w1\<lparr>files := AList.delete (key_file_path self) (files ?w1)\<rparr>))
        (key_file_path self) = None"
      by (simp add: delete_conv')
    ultimately show ?thesis using True by simp
  next
    case False
    from get_key_after_decrypt [OF key1] obtain k' self' where
      g: "get_key self (Some p) ?w1 = (Inr k', self', ?w1)" and
      path: "key_file_path self' = key_file_path self"
      by blast
    define data where "data = AList.update ''deployments'' (JDeployments ?remaining)
       (dict_merge (AList.delete ''address''
            (AList.update ''public_key'' (JStr (keyfile_address X k')) (create_keyfile_json X k' p)))
          (get_account_data self' ?w1))"
    have wr: "write_file X self (Some p) None [(''deployments'', JDeployments ?remaining)] ?w1 =
        (Inr (), self', ?w1\<lparr>files := AList.update (key_file_path self) data (files ?w1)\<rparr>)"
      by (simp add: write_file_def encrypt_key_file_def g create_keyfile_json_def
          dict_merge_single data_def path)
    from False have "delete X self n w =
        (Inr (), self', ?w1\<lparr>files := AList.update (key_file_path self) data (files ?w1)\<rparr>)"
      by (simp add: delete_def prompt key1 ds Let_def wr)
    moreover have "deployments (get_account_data self'
        (?w1\<lparr>files := AList.update (key_file_path self) data (files ?w1)\<rparr>)) = Inr ?remaining"
      by (simp only: get_account_data_written [OF path] data_def deployments_updated)
    ultimately show ?thesis using False path by simp
  qed
qed

text \<open>An alias with no ephemeral account, no cache entry and no key file is not found.\<close>

lemma load_missing_key_file:
  assumes "map_of (ephemeral_accounts r) a = None" and "map_of (cached_accounts r) a = None"
    and "map_of (files w) a = None"
  shows "load a r w = (Inl (AccountsError (NotFound a)), r)"
proof -
  from assms(3) have "a \<notin> set (map fst (files w))"
    by (simp add: map_of_eq_None_iff)
  then show ?thesis
    using assms(1,2)
    by (simp add: load_def load_key_file_account_def find_eq_member)
qed

text \<open>
  \<^verbatim>\<open>delete_account\<close> on a persisted alias loads the account through the cache and
  leaves it there: whatever \<^verbatim>\<open>delete\<close> did to the key file, loading the alias
  afterwards returns the cached account.
\<close>

lemma delete_account_keeps_cache_entry:
  assumes call: "delete_account X a n r w = (res, r', w')"
    and eph: "map_of (ephemeral_accounts r) a = None"
    and found: "res \<noteq> Inl (AccountsError (NotFound a))"
  shows "\<exists>account. load a r' w' = (Inr (Keyfile account), r')"
proof -
  obtain x r1 where l: "load_key_file_account a r w = (x, r1)"
    by (cases "load_key_file_account a r w") 
  note lr = load_key_file_account_result [OF l]
  show ?thesis
  proof (cases x)
    case (Inl e)
    with call eph l have "res = Inl e"
      by (simp add: delete_account_def Let_def)
    with lr Inl found show ?thesis by simp
  next
    case (Inr account)
    define n1 where "n1 = (case n of None \<Rightarrow> network X | Some m \<Rightarrow> if m \<noteq> [] then m else network X)"
    obtain res1 account1 w1 where d: "delete X account n1 w = (res1, account1, w1)"
      by (cases "delete X account n1 w")
    from call eph l Inr d
    have r': "r' = r1\<lparr>cached_accounts := AList.update a account1 (cached_accounts r1)\<rparr>"
      by (simp add: delete_account_def Let_def n1_def)
    have "map_of (cached_accounts r') a = Some account1"
      by (simp add: r' update_conv')
    moreover have "map_of (ephemeral_accounts r') a = None"
      using eph lr by (simp add: r')
    ultimately have "load a r' w' = (Inr (Keyfile account1), r')"
      by (simp add: load_def load_key_file_account_def)
    then show ?thesis by blast
  qed
qed

text \<open>
  Claim C5. The claim says that deleting the last deployment removes the key file and
  that loading the alias afterwards fails with a not-found error. Evaluated on the
  alias \<^verbatim>\<open>bob\<close> with its single deployment on \<^verbatim>\<open>testnet\<close>: the key file is removed,
  but \<^verbatim>\<open>load\<close> returns the account from the cache; only a container whose cache does
  not hold the alias raises the not-found error.
\<close>

theorem delete_account_then_load_finds_deleted_account:
  "delete_account example_collaborators ''bob'' (Some ''testnet'')
     \<lparr>ephemeral_accounts = [], cached_accounts = []\<rparr>
     (example_world
        [(''bob'', example_key_file ''pw''
           [\<lparr>network_name = ''testnet'', contract_address = ''0xAB''\<rparr>])]
        [''pw''] [])
   = (Inr (),
      \<lparr>ephemeral_accounts = [], cached_accounts = [(''bob'', example_account True None)]\<rparr>,
      example_world [] [] [])
   \<and> load ''bob''
       \<lparr>ephemeral_accounts = [], cached_accounts = [(''bob'', example_account True None)]\<rparr>
       (example_world [] [] [])
     = (Inr (Keyfile (example_account True None)),
        \<lparr>ephemeral_accounts = [], cached_accounts = [(''bob'', example_account True None)]\<rparr>)
   \<and> load ''bob'' \<lparr>ephemeral_accounts = [], cached_accounts = []\<rparr> (example_world [] [] [])
     = (Inl (AccountsError (NotFound ''bob'')),
        \<lparr>ephemeral_accounts = [], cached_accounts = []\<rparr>)"
  by code_simp

subsection \<open>Unlocking\<close>

text \<open>
  \<^verbatim>\<open>_get_key\<close> never reads a confirmation, and a locked account whose key it returns
  after prompting for the passphrase is left unlocked with the key cached.
\<close>

lemma get_key_never_confirms:
  "get_key self passphrase w = (res, self', w') \<Longrightarrow> confirms w' = confirms w"
  by (auto simp: get_key_def get_key_decrypt_def get_passphrase_from_prompt_def
      click_prompt_def split: option.splits sum.splits if_splits list.splits)

lemma get_key_prompted_unlocks:
  "locked self \<Longrightarrow> get_key self None w = (Inr k, self', w') \<Longrightarrow>
   \<not> locked self' \<and> cached_key self' = Some k \<and> confirms w' = confirms w"
  by (auto simp: get_key_def get_key_decrypt_def get_passphrase_from_prompt_def
      click_prompt_def split: option.splits sum.splits if_splits list.splits)

text \<open>
  Claim C7. The claim says that without a passphrase argument an interactive yes/no
  confirmation decides whether the account stays unlocked. Evaluated on the locked
  account \<^verbatim>\<open>bob\<close> with the passphrase typed at the prompt and the answer \<^verbatim>\<open>no\<close>
  waiting at the confirmation: the account is unlocked with the key cached, and the
  answer is still waiting, exactly as when the passphrase is passed as an argument.
\<close>

theorem get_key_prompted_never_asks_to_confirm:
  "get_key (example_account True None) None
     (example_world
        [(''bob'', example_key_file ''pw''
           [\<lparr>network_name = ''testnet'', contract_address = ''0xAB''\<rparr>])]
        [''pw''] [False])
   = (Inr 1, example_account False (Some 1),
      example_world
        [(''bob'', example_key_file ''pw''
           [\<lparr>network_name = ''testnet'', contract_address = ''0xAB''\<rparr>])]
        [] [False])
   \<and> get_key (example_account True None) (Some ''pw'')
     (example_world
        [(''bob'', example_key_file ''pw''
           [\<lparr>network_name = ''testnet'', contract_address = ''0xAB''\<rparr>])]
        [] [False])
   = (Inr 1, example_account False (Some 1),
      example_world
        [(''bob'', example_key_file ''pw''
           [\<lparr>network_name = ''testnet'', contract_address = ''0xAB''\<rparr>])]
        [] [False])"
  by code_simp

subsection \<open>Deploying an account\<close>

text \<open>
  Claim C8. \<^verbatim>\<open>deploy_account\<close> fails with the already-exists error, changing
  nothing, when the alias is among the container's aliases; it fails, changing
  nothing, when the receipt carries no contract address; with a fresh alias and a
  receipt that carries an address it returns (on a network other than local once a
  passphrase is typed); and whenever it returns an address, that address is the
  receipt's, the state is the one \<^verbatim>\<open>import_account\<close> leaves for the alias, the
  provider's network, the address and the key, and the data stored under the alias
  holds the single deployment of the normalised network name at that address.
  \<open>key\<close> is the private key used: the argument, or the random key when the argument
  is missing or zero.
\<close>

theorem deploy_account_outcomes:
  assumes key: "key = (case pk of None \<Rightarrow> rnd | Some k \<Rightarrow> if k \<noteq> 0 then k else rnd)"
  shows
  "(a \<in> set (aliases r w) \<longrightarrow>
      deploy_account X a pk rnd r w = (Inl (AccountsError (AlreadyExists a)), r, w))
   \<and> (a \<notin> set (aliases r w) \<and> send_transaction X (public_key_of X key) = Inr rcpt
       \<and> (receipt_contract_address rcpt = None \<or> receipt_contract_address rcpt = Some []) \<longrightarrow>
      deploy_account X a pk rnd r w = (Inl (AccountsError FailedToDeploy), r, w))
   \<and> (a \<notin> set (aliases r w) \<and> send_transaction X (public_key_of X key) = Inr rcpt
       \<and> receipt_contract_address rcpt = Some addr \<and> addr \<noteq> []
       \<and> (clean_network_name (network X) = LOCAL_NETWORK_NAME \<or> prompts w \<noteq> []) \<longrightarrow>
      (\<exists>r1 w1. deploy_account X a pk rnd r w = (Inr addr, r1, w1)))
   \<and> (deploy_account X a pk rnd r w = (Inr addr, r1, w1) \<longrightarrow>
      a \<notin> set (aliases r w)
      \<and> (\<exists>rcpt. send_transaction X (public_key_of X key) = Inr rcpt
            \<and> receipt_contract_address rcpt = Some addr)
      \<and> import_account X a (network X) addr (KeyInt key) r w = (Inr (), r1, w1)
      \<and> (\<exists>data.
            (if clean_network_name (network X) = LOCAL_NETWORK_NAME
             then map_of (ephemeral_accounts r1) a else map_of (files w1) a) = Some data
            \<and> deployments data =
                Inr [\<lparr>network_name = clean_network_name (network X),
                      contract_address = addr\<rparr>]))"
proof (intro conjI impI)
  assume "a \<in> set (aliases r w)"
  then show "deploy_account X a pk rnd r w = (Inl (AccountsError (AlreadyExists a)), r, w)"
    by (simp add: deploy_account_def)
next
  assume "a \<notin> set (aliases r w) \<and> send_transaction X (public_key_of X key) = Inr rcpt
       \<and> (receipt_contract_address rcpt = None \<or> receipt_contract_address rcpt = Some [])"
  then show "deploy_account X a pk rnd r w = (Inl (AccountsError FailedToDeploy), r, w)"
    unfolding key by (auto simp: deploy_account_def Let_def)
next
  assume h: "a \<notin> set (aliases r w) \<and> send_transaction X (public_key_of X key) = Inr rcpt
       \<and> receipt_contract_address rcpt = Some addr \<and> addr \<noteq> []
       \<and> (clean_network_name (network X) = LOCAL_NETWORK_NAME \<or> prompts w \<noteq> [])"
  have "\<exists>r1 w1. import_account X a (network X) addr (KeyInt key) r w = (Inr (), r1, w1)"
  proof (cases "clean_network_name (network X) = LOCAL_NETWORK_NAME")
    case True
    then show ?thesis by (simp add: import_account_local)
  next
    case False
    with h obtain p ps where "prompts w = p # ps"
      by (cases "prompts w") auto
    with False show ?thesis by (simp add: import_account_keyfile)
  qed
  then obtain r1 w1 where
    "import_account X a (network X) addr (KeyInt key) r w = (Inr (), r1, w1)"
    by blast
  with h have "deploy_account X a pk rnd r w = (Inr addr, r1, w1)"
    unfolding key by (simp add: deploy_account_def Let_def)
  then show "\<exists>r1 w1. deploy_account X a pk rnd r w = (Inr addr, r1, w1)"
    by blast
next
  assume d: "deploy_account X a pk rnd r w = (Inr addr, r1, w1)"
  then show fresh: "a \<notin> set (aliases r w)"
    by (auto simp: deploy_account_def)
  from d fresh show "\<exists>rcpt. send_transaction X (public_key_of X key) = Inr rcpt
            \<and> receipt_contract_address rcpt = Some addr"
    unfolding key
    by (auto simp: deploy_account_def Let_def split: sum.splits option.splits if_splits prod.splits)
  from d fresh show imp: "import_account X a (network X) addr (KeyInt key) r w = (Inr (), r1, w1)"
    unfolding key
    by (auto simp: deploy_account_def Let_def split: sum.splits option.splits if_splits prod.splits)
  from import_account_key_file_deployments [OF imp]
  show "\<exists>data.
            (if clean_network_name (network X) = LOCAL_NETWORK_NAME
             then map_of (ephemeral_accounts r1) a else map_of (files w1) a) = Some data
            \<and> deployments data =
                Inr [\<lparr>network_name = clean_network_name (network X),
                      contract_address = addr\<rparr>]" .
qed

theorem deploy_account_outcomes_witness:
  "deploy_account example_collaborators ''bob'' None 7
       \<lparr>ephemeral_accounts = [], cached_accounts = []\<rparr>
       (example_world [(''bob'', example_key_file ''pw'' [])] [''pw''] [])
     = (Inl (AccountsError (AlreadyExists ''bob'')),
        \<lparr>ephemeral_accounts = [], cached_accounts = []\<rparr>,
        example_world [(''bob'', example_key_file ''pw'' [])] [''pw''] [])
   \<and> deploy_account
       (example_collaborators
          \<lparr>send_transaction := (\<lambda>pub. Inr \<lparr>receipt_contract_address = None\<rparr>)\<rparr>)
       ''carol'' None 7
       \<lparr>ephemeral_accounts = [], cached_accounts = []\<rparr>
       (example_world [(''bob'', example_key_file ''pw'' [])] [''pw''] [])
     = (Inl (AccountsError FailedToDeploy),
        \<lparr>ephemeral_accounts = [], cached_accounts = []\<rparr>,
        example_world [(''bob'', example_key_file ''pw'' [])] [''pw''] [])
   \<and> deploy_account example_collaborators ''carol'' None 7
       \<lparr>ephemeral_accounts = [], cached_accounts = []\<rparr>
       (example_world [] [''pw''] [])
     = (Inr ''0xCD'',
        \<lparr>ephemeral_accounts = [], cached_accounts = []\<rparr>,
        example_world
          [(''carol'',
            [(''crypto'', JCrypto (Sealed 7 ''pw'')), (''id'', JStr ''''), (''version'', JInt 3),
             (''public_key'', JStr ''0x7e5f''),
             (''deployments'',
              JDeployments [\<lparr>network_name = ''testnet'', contract_address = ''0xCD''\<rparr>])])]
          [] [])
   \<and> import_account example_collaborators ''carol'' (network example_collaborators) ''0xCD''
       (KeyInt 7) \<lparr>ephemeral_accounts = [], cached_accounts = []\<rparr>
       (example_world [] [''pw''] [])
     = (Inr (),
        \<lparr>ephemeral_accounts = [], cached_accounts = []\<rparr>,
        example_world
          [(''carol'',
            [(''crypto'', JCrypto (Sealed 7 ''pw'')), (''id'', JStr ''''), (''version'', JInt 3),
             (''public_key'', JStr ''0x7e5f''),
             (''deployments'',
              JDeployments [\<lparr>network_name = ''testnet'', contract_address = ''0xCD''\<rparr>])])]
          [] [])"
proof -
  let ?r = "\<lparr>ephemeral_accounts = [], cached_accounts = []\<rparr>"
  let ?w = "example_world [(''bob'', example_key_file ''pw'' [])] [''pw''] []"
  let ?X = "example_collaborators
          \<lparr>send_transaction := (\<lambda>pub. Inr \<lparr>receipt_contract_address = None\<rparr>)\<rparr>"
  let ?w1 = "example_world
          [(''carol'',
            [(''crypto'', JCrypto (Sealed 7 ''pw'')), (''id'', JStr ''''), (''version'', JInt 3),
             (''public_key'', JStr ''0x7e5f''),
             (''deployments'',
              JDeployments [\<lparr>network_name = ''testnet'', contract_address = ''0xCD''\<rparr>])])]
          [] []"
  have key: "(7::int) = (case (None::int option) of None \<Rightarrow> 7 | Some k \<Rightarrow> if k \<noteq> 0 then k else 7)"
    by simp
  have known: "''bob'' \<in> set (aliases ?r ?w)"
    by (simp add: aliases_def example_world_def)
  have fresh: "''carol'' \<notin> set (aliases ?r ?w)"
    by (simp add: aliases_def example_world_def)
  have sent: "send_transaction ?X (public_key_of ?X 7) = Inr \<lparr>receipt_contract_address = None\<rparr>"
    by (simp add: example_collaborators_def)
  have ok: "deploy_account example_collaborators ''carol'' None 7 ?r (example_world [] [''pw''] [])
     = (Inr ''0xCD'', ?r, ?w1)"
    by code_simp
  from deploy_account_outcomes [OF key, of "''bob''" ?r ?w example_collaborators] known
  have a: "deploy_account example_collaborators ''bob'' None 7 ?r ?w
     = (Inl (AccountsError (AlreadyExists ''bob'')), ?r, ?w)"
    by simp
  from deploy_account_outcomes
         [OF key, of "''carol''" ?r ?w ?X "\<lparr>receipt_contract_address = None\<rparr>"]
       fresh sent
  have b: "deploy_account ?X ''carol'' None 7 ?r ?w = (Inl (AccountsError FailedToDeploy), ?r, ?w)"
    by simp
  from deploy_account_outcomes
         [OF key, of "''carol''" ?r "example_world [] [''pw''] []" example_collaborators _ "''0xCD''"
            ?r ?w1]
       ok
  have c: "import_account example_collaborators ''carol'' (network example_collaborators) ''0xCD''
       (KeyInt 7) ?r (example_world [] [''pw''] []) = (Inr (), ?r, ?w1)"
    by simp
  from a b ok c show ?thesis by simp
qed

subsection \<open>Importing on the local network\<close>

text \<open>
  Claim C9. For every call of \<^verbatim>\<open>import_account\<close> whose normalised network is the local
  network: the key files, and the whole world outside the process, are the same before
  and after the call; the cache and the ephemeral accounts of the other aliases are
  unchanged; with an integer key the call returns; when it returns, the alias is in
  the ephemeral dictionary with its public key, private key and the single local
  deployment; and when it raises, the container is unchanged.
\<close>

theorem import_account_local_keeps_files:
  assumes "clean_network_name net = LOCAL_NETWORK_NAME"
  shows "case import_account X a net addr pk r w of
           (res, r1, w1) \<Rightarrow>
             files w1 = files w \<and> w1 = w
             \<and> cached_accounts r1 = cached_accounts r
             \<and> (\<forall>b. b \<noteq> a \<longrightarrow>
                   map_of (ephemeral_accounts r1) b = map_of (ephemeral_accounts r) b)
             \<and> (\<forall>k. pk = KeyInt k \<longrightarrow> res = Inr ())
             \<and> (case res of
                   Inl e \<Rightarrow> r1 = r
                 | Inr u \<Rightarrow>
                     (\<exists>k. map_of (ephemeral_accounts r1) a =
                        Some [(''public_key'', JInt (public_key_of X k)),
                              (''private_key'', JInt k),
                              (''deployments'',
                               JDeployments [\<lparr>network_name = LOCAL_NETWORK_NAME,
                                              contract_address = addr\<rparr>])]))"
proof (cases "case pk of KeyInt k \<Rightarrow> Some k | KeyStr s \<Rightarrow> int_base16 X (strip_quotes s)")
  case None
  then have "import_account X a net addr pk r w =
      (Inl (ValueError ''invalid literal for int() with base 16''), r, w)"
    by (cases pk) (auto simp: import_account_def)
  moreover from None have "\<forall>k. pk \<noteq> KeyInt k" by (cases pk) auto
  ultimately show ?thesis by simp
next
  case (Some k)
  then have "import_account X a net addr pk r w = import_account X a net addr (KeyInt k) r w"
    by (cases pk) (auto simp: import_account_def)
  then show ?thesis
    by (auto simp: import_account_local [OF assms] update_conv')
qed

theorem import_account_local_keeps_files_witness:
  "clean_network_name ''dev-local'' = LOCAL_NETWORK_NAME
   \<and> import_account example_collaborators ''dev'' ''dev-local'' ''0xA'' (KeyStr ''0x1'')
       \<lparr>ephemeral_accounts = [], cached_accounts = []\<rparr>
       (example_world [(''bob'', example_key_file ''pw'' [])] [''pw''] [])
     = (Inr (),
        \<lparr>ephemeral_accounts =
           [(''dev'', example_ephemeral_data 1
               [\<lparr>network_name = ''local'', contract_address = ''0xA''\<rparr>])],
         cached_accounts = []\<rparr>,
        example_world [(''bob'', example_key_file ''pw'' [])] [''pw''] [])
   \<and> files (snd (snd (import_account example_collaborators ''dev'' ''dev-local'' ''0xA''
          (KeyStr ''0x1'') \<lparr>ephemeral_accounts = [], cached_accounts = []\<rparr>
          (example_world [(''bob'', example_key_file ''pw'' [])] [''pw''] []))))
     = files (example_world [(''bob'', example_key_file ''pw'' [])] [''pw''] [])"
proof -
  have local: "clean_network_name ''dev-local'' = LOCAL_NETWORK_NAME"
    by code_simp
  have run: "import_account example_collaborators ''dev'' ''dev-local'' ''0xA'' (KeyStr ''0x1'')
       \<lparr>ephemeral_accounts = [], cached_accounts = []\<rparr>
       (example_world [(''bob'', example_key_file ''pw'' [])] [''pw''] [])
     = (Inr (),
        \<lparr>ephemeral_accounts =
           [(''dev'', example_ephemeral_data 1
               [\<lparr>network_name = ''local'', contract_address = ''0xA''\<rparr>])],
         cached_accounts = []\<rparr>,
        example_world [(''bob'', example_key_file ''pw'' [])] [''pw''] [])"
    by code_simp
  from import_account_local_keeps_files
         [OF local, where X = example_collaborators and a = "''dev''" and addr = "''0xA''"
            and pk = "KeyStr ''0x1''"
            and r = "\<lparr>ephemeral_accounts = [], cached_accounts = []\<rparr>"
            and w = "example_world [(''bob'', example_key_file ''pw'' [])] [''pw''] []"]
  have "files (snd (snd (import_account example_collaborators ''dev'' ''dev-local'' ''0xA''
          (KeyStr ''0x1'') \<lparr>ephemeral_accounts = [], cached_accounts = []\<rparr>
          (example_world [(''bob'', example_key_file ''pw'' [])] [''pw''] []))))
     = files (example_world [(''bob'', example_key_file ''pw'' [])] [''pw''] [])"
    by (simp split: prod.splits)
  with local run show ?thesis by simp
qed

end
